theory Spec2Isabelle
  imports Main
begin

section \<open>Shutdown coordinator: \<open>serviceImpl.Run\<close>, \<open>runHTTPServer\<close> and \<open>NewExitFunc\<close> (service.go)\<close>

text \<open>
  The arbitration goroutine of \<open>Run\<close> (service.go, lines 242-269) waits in one
  \<open>select\<close> on three channels and then runs straight-line code. The three cases of the
  \<open>select\<close> are the three shutdown triggers.
\<close>

datatype trigger = ListenerDied | Cancelled | OsSignal

text \<open>
  What a goroutine does to the outside is recorded as a list of events, oldest first.
  A write to \<open>s.quitting\<close> records the value it overwrites and the value it stores. A call
  of the injected \<open>exitFunc\<close> records its argument and the events the callee performs; a
  \<open>go\<close> statement records the body of the goroutine it starts.
\<close>

datatype event =
    Debug string string
  | WriteQuitting bool bool
  | SendStop
  | CallExitFunc int "event list"
  | Go "event list"
  | CallShutdownFunc
  | Panic
  | Sleep nat
  | OsExit int

text \<open>
  \<open>shutdownFunc\<close> is a callback of the caller, possibly \<open>nil\<close>. All the exit function
  can observe of it is whether the call comes back.
\<close>

datatype callback = Returns | Panics | Hangs

text \<open>
  The goroutine started by the function that \<open>NewExitFunc\<close> returns (lines 185-197):
  the callback when there is one, half a second of sleep when the code is not zero, then
  \<open>os.Exit(code)\<close>. A callback that panics takes the process down with the panic and one
  that never returns keeps the goroutine there: in both cases nothing after it runs.
\<close>

definition exit_tail :: "int \<Rightarrow> event list" where
  "exit_tail code =
     (if code \<noteq> 0 then [Sleep 500] else [])
     @ [Debug ''ServiceExit'' ''Calling os.Exit(%v)'', OsExit code]"

definition exit_goroutine :: "callback option \<Rightarrow> int \<Rightarrow> event list" where
  "exit_goroutine shutdownFunc code =
     (case shutdownFunc of
        None \<Rightarrow> exit_tail code
      | Some cb \<Rightarrow>
          [Debug ''ShutdownFunc'' ''Calling shutdown func'', CallShutdownFunc]
          @ (case cb of
               Returns \<Rightarrow> exit_tail code
             | Panics \<Rightarrow> [Panic]
             | Hangs \<Rightarrow> []))"

definition NewExitFunc :: "callback option \<Rightarrow> int \<Rightarrow> event list" where
  "NewExitFunc shutdownFunc code =
     [Debug ''ServiceExit'' ''Performing service exit'',
      Go (exit_goroutine shutdownFunc code),
      Sleep 1]"

text \<open>
  A buffered channel is the list of the values waiting in it. A send on a full channel
  blocks: the sender does not move, which is \<open>None\<close>.
\<close>

definition chan_send :: "nat \<Rightarrow> 'a \<Rightarrow> 'a list \<Rightarrow> 'a list option" where
  "chan_send cap v ch = (if length ch < cap then Some (ch @ [v]) else None)"

text \<open>
  The program counter of the arbitration goroutine, one value per statement that touches
  shared state: the \<open>select\<close> (line 243), the two statements of the cancellation case
  (lines 252, 253), the test of line 260, the two statements it guards (lines 262, 263),
  the call of line 267 and the send of line 268.
\<close>

datatype pc = AtSelect | CancelSet | CancelSend | Check | GuardSet | GuardSend
  | CallExit | SendDone | Ended

text \<open>
  How the process has come to its end, if it has: by \<open>os.Exit\<close> with a code, or by a
  panic that no goroutine recovers, which ends a Go program with status 2.
\<close>

datatype ending = Exited int | Crashed

text \<open>
  \<open>runHTTPServer\<close> (lines 294-326) makes a server, held in the local variable \<open>svr\<close>, and
  starts two goroutines that both capture that variable. The listener (lines 304-310)
  calls \<open>svr.ListenAndServe()\<close> and, when the call comes back, sends on \<open>receiveChan\<close>. The
  watcher (lines 312-325) takes a value from \<open>sendChan\<close>, closes the server and sets
  \<open>svr\<close> to \<open>nil\<close> if it is not \<open>nil\<close>, and sends the value on \<open>sendChan\<close> again.
\<close>

datatype listener_state = Starting | Serving | Stopped | Reported

datatype watcher_state = Watching | Received bool | Closed bool | Resending bool | Finished

record server =
  svr :: bool
  listener :: listener_state
  watcher :: watcher_state

text \<open>
  The state of a run: the fields \<open>quitting\<close>, \<open>sendChan\<close> and \<open>receiveChan\<close> of
  \<open>serviceImpl\<close>, the local channel \<open>done\<close>, the arbitration goroutine's program counter
  and its events, the cancellation and the signal if they have come, the three
  servers (\<open>svr\<close> is true while the variable is not \<open>nil\<close>), what is left to do of the
  goroutines that exit functions have started, and the end of the process.
\<close>

record run_state =
  quitting :: bool
  sendChan :: "bool list"
  receiveChan :: "bool list"
  doneChan :: "bool list"
  at :: pc
  trace :: "event list"
  fired :: "trigger set"
  servers :: "server list"
  spawned :: "event list list"
  ended :: "ending option"

text \<open>
  What an event of an exit function or of a goroutine it started does to the run: a
  \<open>go\<close> statement starts a goroutine, \<open>os.Exit\<close> and a panic end the process. Once the
  process has ended nothing more happens.
\<close>

fun effect :: "event \<Rightarrow> run_state \<Rightarrow> run_state" where
  "effect (Go body) s = s\<lparr>spawned := spawned s @ [body]\<rparr>"
| "effect (OsExit code) s = s\<lparr>ended := Some (Exited code)\<rparr>"
| "effect Panic s = s\<lparr>ended := Some Crashed\<rparr>"
| "effect _ s = s"

fun effects :: "event list \<Rightarrow> run_state \<Rightarrow> run_state" where
  "effects [] s = s"
| "effects (e # es) s = (if ended s = None then effects es (effect e s) else s)"

definition write_quitting :: "bool \<Rightarrow> run_state \<Rightarrow> run_state" where
  "write_quitting b s =
     s\<lparr>quitting := b, trace := trace s @ [WriteQuitting (quitting s) b]\<rparr>"

definition send_stop :: "run_state \<Rightarrow> run_state option" where
  "send_stop s =
     (case chan_send 1 True (sendChan s) of
        None \<Rightarrow> None
      | Some ch \<Rightarrow> Some (s\<lparr>sendChan := ch, trace := trace s @ [SendStop]\<rparr>))"

text \<open>
  One statement of the arbitration goroutine. \<open>t\<close> is the case the \<open>select\<close> takes and is
  read at \<open>AtSelect\<close> only: the case of \<open>receiveChan\<close> needs a value in that channel and
  takes it out, the case of \<open>ctx.Done()\<close> needs the cancellation, the case of \<open>sigs\<close>
  needs a signal and takes it. \<open>exitFunc\<close> is the injected exit function. \<open>None\<close>: the
  goroutine cannot move (no case ready, blocked on a full channel, or ended).
\<close>

definition coord_step :: "(int \<Rightarrow> event list) \<Rightarrow> trigger \<Rightarrow> run_state \<Rightarrow> run_state option" where
  "coord_step exitFunc t s =
     (case at s of
        AtSelect \<Rightarrow>
          (case t of
             ListenerDied \<Rightarrow>
               (case receiveChan s of
                  [] \<Rightarrow> None
                | v # rest \<Rightarrow>
                    Some (s\<lparr>receiveChan := rest,
                            trace := trace s @
                              [Debug ''UnexpectedShutdownReceived''
                                 ''Server shut down unexpectedly''],
                            at := Check\<rparr>))
           | Cancelled \<Rightarrow>
               (if Cancelled \<in> fired s
                then Some (s\<lparr>trace := trace s @
                              [Debug ''ServiceCancel'' ''Cancellation request received''],
                            at := CancelSet\<rparr>)
                else None)
           | OsSignal \<Rightarrow>
               (if OsSignal \<in> fired s
                then Some (s\<lparr>fired := fired s - {OsSignal},
                            trace := trace s @
                              [Debug ''GracefulShutdown'' ''Handling Sigterm/SigInt''],
                            at := Check\<rparr>)
                else None))
      | CancelSet \<Rightarrow> Some ((write_quitting True s)\<lparr>at := CancelSend\<rparr>)
      | CancelSend \<Rightarrow>
          (case send_stop s of None \<Rightarrow> None | Some s' \<Rightarrow> Some (s'\<lparr>at := Check\<rparr>))
      | Check \<Rightarrow> Some (s\<lparr>at := (if \<not> quitting s then GuardSet else CallExit)\<rparr>)
      | GuardSet \<Rightarrow> Some ((write_quitting True s)\<lparr>at := GuardSend\<rparr>)
      | GuardSend \<Rightarrow>
          (case send_stop s of None \<Rightarrow> None | Some s' \<Rightarrow> Some (s'\<lparr>at := CallExit\<rparr>))
      | CallExit \<Rightarrow>
          Some (effects (exitFunc 0)
                  (s\<lparr>trace := trace s @ [CallExitFunc 0 (exitFunc 0)], at := SendDone\<rparr>))
      | SendDone \<Rightarrow>
          (case chan_send 1 True (doneChan s) of
             None \<Rightarrow> None
           | Some ch \<Rightarrow> Some (s\<lparr>doneChan := ch, at := Ended\<rparr>))
      | Ended \<Rightarrow> None)"

text \<open>
  One statement of the listener of server \<open>i\<close>. It reads \<open>svr\<close> to call
  \<open>ListenAndServe\<close> (line 306): with \<open>nil\<close> there the call dereferences a nil pointer, a
  panic that nothing recovers. The call comes back at any moment (a failed bind, a closed
  server), and then the listener sends on \<open>receiveChan\<close> (line 309).
\<close>

definition listener_step :: "nat \<Rightarrow> run_state \<Rightarrow> run_state option" where
  "listener_step i s =
     (if i < length (servers s)
      then let sv = servers s ! i in
        case listener sv of
          Starting \<Rightarrow>
            (if svr sv
             then Some (s\<lparr>servers := (servers s)[i := sv\<lparr>listener := Serving\<rparr>]\<rparr>)
             else Some (s\<lparr>ended := Some Crashed\<rparr>))
        | Serving \<Rightarrow> Some (s\<lparr>servers := (servers s)[i := sv\<lparr>listener := Stopped\<rparr>]\<rparr>)
        | Stopped \<Rightarrow>
            (case chan_send 1 True (receiveChan s) of
               None \<Rightarrow> None
             | Some ch \<Rightarrow>
                 Some (s\<lparr>receiveChan := ch,
                         servers := (servers s)[i := sv\<lparr>listener := Reported\<rparr>]\<rparr>))
        | Reported \<Rightarrow> None
      else None)"

text \<open>
  One statement of the watcher of server \<open>i\<close>: the receive of line 315, the test of line
  317 with the call of \<open>Close\<close>, the assignment of line 319, the send of line 322.
\<close>

definition watcher_step :: "nat \<Rightarrow> run_state \<Rightarrow> run_state option" where
  "watcher_step i s =
     (if i < length (servers s)
      then let sv = servers s ! i in
        case watcher sv of
          Watching \<Rightarrow>
            (case sendChan s of
               [] \<Rightarrow> None
             | sig # rest \<Rightarrow>
                 Some (s\<lparr>sendChan := rest,
                         servers := (servers s)[i := sv\<lparr>watcher := Received sig\<rparr>]\<rparr>))
        | Received sig \<Rightarrow>
            Some (s\<lparr>servers := (servers s)
                      [i := sv\<lparr>watcher := (if svr sv then Closed sig else Resending sig)\<rparr>]\<rparr>)
        | Closed sig \<Rightarrow>
            Some (s\<lparr>servers := (servers s)[i := sv\<lparr>svr := False, watcher := Resending sig\<rparr>]\<rparr>)
        | Resending sig \<Rightarrow>
            (case chan_send 1 sig (sendChan s) of
               None \<Rightarrow> None
             | Some ch \<Rightarrow>
                 Some (s\<lparr>sendChan := ch,
                         servers := (servers s)[i := sv\<lparr>watcher := Finished\<rparr>]\<rparr>))
        | Finished \<Rightarrow> None
      else None)"

text \<open>The next event of the \<open>i\<close>-th goroutine that an exit function has started.\<close>

definition goroutine_step :: "nat \<Rightarrow> run_state \<Rightarrow> run_state option" where
  "goroutine_step i s =
     (if i < length (spawned s)
      then case spawned s ! i of
             [] \<Rightarrow> None
           | e # rest \<Rightarrow> Some (effect e (s\<lparr>spawned := (spawned s)[i := rest]\<rparr>))
      else None)"

text \<open>
  The goroutines of a run interleave at these statements, while the process lives. The
  cancellation and the signal come from outside at any moment; a dead listener is
  announced by the listener itself, through \<open>receiveChan\<close>.
\<close>

datatype action = Fire trigger | Coord trigger | Listener nat | Watcher nat | Goroutine nat

definition perform :: "(int \<Rightarrow> event list) \<Rightarrow> action \<Rightarrow> run_state \<Rightarrow> run_state option" where
  "perform exitFunc a s =
     (if ended s \<noteq> None then None
      else case a of
             Fire t \<Rightarrow>
               (if t = ListenerDied then None else Some (s\<lparr>fired := insert t (fired s)\<rparr>))
           | Coord t \<Rightarrow> coord_step exitFunc t s
           | Listener i \<Rightarrow> listener_step i s
           | Watcher i \<Rightarrow> watcher_step i s
           | Goroutine i \<Rightarrow> goroutine_step i s)"

inductive step :: "(int \<Rightarrow> event list) \<Rightarrow> run_state \<Rightarrow> run_state \<Rightarrow> bool"
  for exitFunc :: "int \<Rightarrow> event list" where
    act: "perform exitFunc a s = Some s' \<Longrightarrow> step exitFunc s s'"

text \<open>
  The state in which \<open>Run\<close> starts its goroutines: \<open>NewCustomService\<close> leaves \<open>quitting\<close>
  at its zero value and makes \<open>sendChan\<close> and \<open>receiveChan\<close> empty with capacity 1; \<open>Run\<close>
  makes \<open>done\<close> the same way and starts three servers. A goroutine that has not been
  started yet is one that has not moved yet. What the caller of \<open>Run\<close> does when \<open>Run\<close>
  comes back is not part of service.go and not part of a run.
\<close>

definition init :: run_state where
  "init = \<lparr>quitting = False, sendChan = [], receiveChan = [], doneChan = [], at = AtSelect,
           trace = [], fired = {},
           servers = replicate 3 \<lparr>svr = True, listener = Starting, watcher = Watching\<rparr>,
           spawned = [], ended = None\<rparr>"

definition reachable :: "(int \<Rightarrow> event list) \<Rightarrow> run_state \<Rightarrow> bool" where
  "reachable exitFunc s = (step exitFunc)\<^sup>*\<^sup>* init s"

text \<open>A run by a given schedule; an action that cannot be performed is passed over.\<close>

fun run_all :: "(int \<Rightarrow> event list) \<Rightarrow> action list \<Rightarrow> run_state \<Rightarrow> run_state" where
  "run_all exitFunc [] s = s"
| "run_all exitFunc (a # acts) s =
     (case perform exitFunc a s of
        None \<Rightarrow> run_all exitFunc acts s
      | Some s' \<Rightarrow> run_all exitFunc acts s')"

text \<open>
  Schedules. All listeners get to serve; then a trigger comes (for the dead listener:
  the first server's \<open>ListenAndServe\<close> comes back and the listener reports it); then the
  arbitration goroutine runs its eight statements. After that each watcher in turn
  runs its four statements.
\<close>

definition listeners_up :: "action list" where
  "listeners_up = [Listener 0, Listener 1, Listener 2]"

fun arrive :: "trigger \<Rightarrow> action list" where
  "arrive ListenerDied = [Listener 0, Listener 0]"
| "arrive Cancelled = [Fire Cancelled]"
| "arrive OsSignal = [Fire OsSignal]"

definition shutdown_run :: "trigger \<Rightarrow> action list" where
  "shutdown_run t = listeners_up @ arrive t @ replicate 8 (Coord t)"

definition deliver :: "action list" where
  "deliver = concat (map (\<lambda>i. replicate 4 (Watcher i)) [0, 1, 2])"


text \<open>
  A run in which the stop signal reaches the watcher of a server before the listener of
  that server has read \<open>svr\<close>.
\<close>

definition early_stop :: "action list" where
  "early_stop =
     [Fire OsSignal] @ replicate 6 (Coord OsSignal) @ [Watcher 0, Watcher 0, Watcher 0, Listener 0]"

text \<open>Observations on a list of events.\<close>

definition flips :: "event list \<Rightarrow> nat" where
  "flips tr = length (filter (\<lambda>e. e = WriteQuitting False True) tr)"

definition broadcasts :: "event list \<Rightarrow> nat" where
  "broadcasts tr = length (filter (\<lambda>e. e = SendStop) tr)"

fun is_exit_call :: "event \<Rightarrow> bool" where
  "is_exit_call (CallExitFunc c evs) = True"
| "is_exit_call _ = False"

definition exit_calls :: "event list \<Rightarrow> nat" where
  "exit_calls tr = length (filter is_exit_call tr)"










text \<open>
  What holds at each statement of the arbitration goroutine, whatever the other
  goroutines have done meanwhile: the flag, and how often it has been switched on, the
  stop signal sent and the exit function called.
\<close>

definition coord_inv :: "run_state \<Rightarrow> bool" where
  "coord_inv s =
     (let f = flips (trace s); b = broadcasts (trace s); x = exit_calls (trace s);
          q = quitting s in
      case at s of
        AtSelect \<Rightarrow> \<not> q \<and> f = 0 \<and> b = 0 \<and> x = 0
      | CancelSet \<Rightarrow> \<not> q \<and> f = 0 \<and> b = 0 \<and> x = 0
      | CancelSend \<Rightarrow> q \<and> f = 1 \<and> b = 0 \<and> x = 0
      | Check \<Rightarrow> (\<not> q \<and> f = 0 \<and> b = 0 \<and> x = 0) \<or> (q \<and> f = 1 \<and> b = 1 \<and> x = 0)
      | GuardSet \<Rightarrow> \<not> q \<and> f = 0 \<and> b = 0 \<and> x = 0
      | GuardSend \<Rightarrow> q \<and> f = 1 \<and> b = 0 \<and> x = 0
      | CallExit \<Rightarrow> q \<and> f = 1 \<and> b = 1 \<and> x = 0
      | SendDone \<Rightarrow> q \<and> f = 1 \<and> b = 1 \<and> x = 1
      | Ended \<Rightarrow> q \<and> f = 1 \<and> b = 1 \<and> x = 1)"




text \<open>
  A run in which the termination signal comes and a listener dies before the \<open>select\<close>
  runs, the \<open>select\<close> takes the signal, the goroutine runs to its end and the
  cancellation arrives after that.
\<close>

definition both_fired :: run_state where
  "both_fired =
     run_all (NewExitFunc None)
       (listeners_up @ [Fire OsSignal, Listener 0, Listener 0]
        @ replicate 8 (Coord OsSignal) @ [Fire Cancelled]) init"


section \<open>Service state reader and route registration (service.go)\<close>

subsection \<open>\<open>NewServiceStateReader\<close>\<close>

text \<open>
  \<open>serviceStateReaderImpl\<close> is a struct with no fields (lines 74-75); its three methods
  (lines 212-222) are the default implementation of the interface \<open>ServiceStateReader\<close>
  (lines 62-66), which is a record of the three methods here.
\<close>

datatype serviceStateReaderImpl = ServiceStateReaderImpl

record ServiceStateReader =
  IsLive :: "unit \<Rightarrow> bool"
  IsReady :: "unit \<Rightarrow> bool"
  IsHealthy :: "unit \<Rightarrow> bool"

fun serviceStateReaderImpl_IsLive :: "serviceStateReaderImpl \<Rightarrow> bool" where
  "serviceStateReaderImpl_IsLive s = True"

fun serviceStateReaderImpl_IsReady :: "serviceStateReaderImpl \<Rightarrow> bool" where
  "serviceStateReaderImpl_IsReady s = True"

fun serviceStateReaderImpl_IsHealthy :: "serviceStateReaderImpl \<Rightarrow> bool" where
  "serviceStateReaderImpl_IsHealthy s = True"

definition NewServiceStateReader :: ServiceStateReader where
  "NewServiceStateReader =
     \<lparr>IsLive = (\<lambda>_. serviceStateReaderImpl_IsLive ServiceStateReaderImpl),
      IsReady = (\<lambda>_. serviceStateReaderImpl_IsReady ServiceStateReaderImpl),
      IsHealthy = (\<lambda>_. serviceStateReaderImpl_IsHealthy ServiceStateReaderImpl)\<rparr>"

text \<open>A call of one of the three methods, for sequences of calls.\<close>

datatype state_query = AskLive | AskReady | AskHealthy

fun ask :: "ServiceStateReader \<Rightarrow> state_query \<Rightarrow> bool" where
  "ask r AskLive = IsLive r ()"
| "ask r AskReady = IsReady r ()"
| "ask r AskHealthy = IsHealthy r ()"

subsection \<open>Middleware kinds\<close>

text \<open>
  Modelled from the spec: the type \<open>Middleware\<close> is declared outside service.go. It is an
  integer enumeration of six kinds with a fallback for any other value (section 3 and
  the note on enum-as-int in section 9); service.go names \<open>PanicTo500\<close>, \<open>RequestLogging\<close>
  and \<open>NoCaching\<close>, the tests \<open>CORS\<close>, \<open>Counter\<close> and \<open>Histogram\<close>. \<open>Unrecognized k\<close> is a
  value \<open>k\<close> that is none of the six.
\<close>

datatype Middleware = PanicTo500 | RequestLogging | NoCaching | CORS | Counter | Histogram
  | Unrecognized int

definition DefaultMiddlewares :: "Middleware list" where
  "DefaultMiddlewares = [PanicTo500, RequestLogging, NoCaching]"

definition publicSubsystem :: string where
  "publicSubsystem = ''public''"

subsection \<open>Routers and the service\<close>

text \<open>
  \<open>serviceImpl\<close> holds three pointers to routers (lines 85-87). A pointer is an address,
  and the routers live in a store, so that two fields holding the same address share
  one routing table. The store also carries the state of the injected \<open>WrapHandler\<close>
  (its logger, its metrics), of which nothing is known here.
\<close>

type_synonym 'c table = "string \<times> string \<rightharpoonup> 'c"

record ('c, 'w) heap =
  tables :: "nat \<Rightarrow> 'c table"
  allocated :: nat
  wrapper :: 'w

text \<open>The handle each handler factory of \<open>s.handlers\<close> returns.\<close>

record 'h Handlers =
  RootHandler :: 'h
  LivenessHandler :: 'h
  ReadinessHandler :: 'h
  HealthHandler :: 'h
  MetricsHandler :: 'h
  QuitHandler :: 'h
  VersionHandler :: 'h

text \<open>The fields of \<open>serviceImpl\<close> that route registration reads.\<close>

record 'h serviceImpl =
  publicRouter :: nat
  readinessRouter :: nat
  internalRouter :: nat
  handlers :: "'h Handlers"

text \<open>
  \<open>WrapHandler.Wrap(subsystem, name, middlewares, handler)\<close> is a method of an injected
  interface: a parameter, which may change its own state and returns the composed
  handler.
\<close>

type_synonym ('h, 'c, 'w) WrapHandler =
  "string \<Rightarrow> string \<Rightarrow> Middleware list \<Rightarrow> 'h \<Rightarrow> 'w \<Rightarrow> 'c \<times> 'w"

text \<open>
  Modelled from the spec: the router factory is outside service.go. Each logical server
  has a routing table of its own (section 2), so \<open>NewRouter\<close> gives a new router with
  an empty table at an address not in use.
\<close>

definition NewRouter :: "('c, 'w) heap \<Rightarrow> nat \<times> ('c, 'w) heap" where
  "NewRouter hp =
     (allocated hp,
      hp\<lparr>tables := (tables hp)(allocated hp := Map.empty), allocated := Suc (allocated hp)\<rparr>)"

text \<open>
  \<open>NewCustomService\<close> (lines 157-177) asks the factory of the options for three routers,
  in the order of the fields.
\<close>

definition NewCustomService ::
  "(('c, 'w) heap \<Rightarrow> nat \<times> ('c, 'w) heap) \<Rightarrow> 'h Handlers \<Rightarrow> ('c, 'w) heap
     \<Rightarrow> 'h serviceImpl \<times> ('c, 'w) heap" where
  "NewCustomService newRouter hs hp =
     (case newRouter hp of (pub, hp1) \<Rightarrow>
      case newRouter hp1 of (rdy, hp2) \<Rightarrow>
      case newRouter hp2 of (itn, hp3) \<Rightarrow>
        (\<lparr>publicRouter = pub, readinessRouter = rdy, internalRouter = itn, handlers = hs\<rparr>,
         hp3))"

text \<open>
  Modelled from the spec: the routing engine is outside service.go.
  \<open>Handle(method, path, composedHandler)\<close> registers the handler for the pair, and a pair
  registered twice keeps the last handler (sections 4.2 and 6).
\<close>

definition Router_Handle ::
  "nat \<Rightarrow> string \<Rightarrow> string \<Rightarrow> 'c \<Rightarrow> ('c, 'w) heap \<Rightarrow> ('c, 'w) heap" where
  "Router_Handle router method path h hp =
     hp\<lparr>tables := (tables hp)(router := (tables hp router)((method, path) \<mapsto> h))\<rparr>"

text \<open>The inner loop of \<open>addRoute\<close> (lines 288-290).\<close>

fun addRoute_methods ::
  "nat \<Rightarrow> string \<Rightarrow> 'c \<Rightarrow> string list \<Rightarrow> ('c, 'w) heap \<Rightarrow> ('c, 'w) heap" where
  "addRoute_methods router path wrappedHandler [] hp = hp"
| "addRoute_methods router path wrappedHandler (method # methods) hp =
     addRoute_methods router path wrappedHandler methods
       (Router_Handle router method path wrappedHandler hp)"

text \<open>
  \<open>addRoute\<close> (lines 284-292): for each path, one call of \<open>Wrap\<close>, then one call of
  \<open>Handle\<close> for each method with the handler that call returned.
\<close>

fun addRoute ::
  "('h, 'c, 'w) WrapHandler \<Rightarrow> nat \<Rightarrow> string \<Rightarrow> string \<Rightarrow> string list \<Rightarrow> string list
     \<Rightarrow> Middleware list \<Rightarrow> 'h \<Rightarrow> ('c, 'w) heap \<Rightarrow> ('c, 'w) heap" where
  "addRoute wrap router subsystem name [] methods middlewares handler hp = hp"
| "addRoute wrap router subsystem name (path # routes) methods middlewares handler hp =
     (case wrap subsystem name middlewares handler (wrapper hp) of
        (wrappedHandler, w') \<Rightarrow>
          addRoute wrap router subsystem name routes methods middlewares handler
            (addRoute_methods router path wrappedHandler methods (hp\<lparr>wrapper := w'\<rparr>)))"

text \<open>\<open>AddRoute\<close> (lines 280-282).\<close>

definition AddRoute ::
  "('h, 'c, 'w) WrapHandler \<Rightarrow> 'h serviceImpl \<Rightarrow> string \<Rightarrow> string list \<Rightarrow> string list
     \<Rightarrow> Middleware list \<Rightarrow> 'h \<Rightarrow> ('c, 'w) heap \<Rightarrow> ('c, 'w) heap" where
  "AddRoute wrap s name routes methods middlewares handler hp =
     addRoute wrap (publicRouter s) publicSubsystem name routes methods middlewares handler hp"

text \<open>
  The route registrations of \<open>runReadinessServer\<close>, \<open>runInternalServer\<close> and
  \<open>runPublicServer\<close> (lines 329-371). The log line and the start of the HTTP server that
  follow them do not touch the routing tables. \<open>MethodsForGet\<close> is declared outside
  service.go: a parameter.
\<close>

definition runReadinessServer ::
  "('h, 'c, 'w) WrapHandler \<Rightarrow> string list \<Rightarrow> 'h serviceImpl \<Rightarrow> ('c, 'w) heap
     \<Rightarrow> ('c, 'w) heap" where
  "runReadinessServer wrap MethodsForGet s hp =
     (let subsystem = ''readiness'';
          router = readinessRouter s;
          hp = addRoute wrap router subsystem ''root'' [''/''] MethodsForGet
                 DefaultMiddlewares (RootHandler (handlers s)) hp;
          hp = addRoute wrap router subsystem ''liveness'' [''/service/liveness'']
                 MethodsForGet DefaultMiddlewares (LivenessHandler (handlers s)) hp;
          hp = addRoute wrap router subsystem ''readiness'' [''/service/readiness'']
                 MethodsForGet DefaultMiddlewares (ReadinessHandler (handlers s)) hp
      in hp)"

definition runInternalServer ::
  "('h, 'c, 'w) WrapHandler \<Rightarrow> string list \<Rightarrow> 'h serviceImpl \<Rightarrow> ('c, 'w) heap
     \<Rightarrow> ('c, 'w) heap" where
  "runInternalServer wrap MethodsForGet s hp =
     (let subsystem = ''internal'';
          router = internalRouter s;
          hp = addRoute wrap router subsystem ''root'' [''/''] MethodsForGet
                 DefaultMiddlewares (RootHandler (handlers s)) hp;
          hp = addRoute wrap router subsystem ''health_check'' [''/health_check'', ''/healthz'']
                 MethodsForGet DefaultMiddlewares (HealthHandler (handlers s)) hp;
          hp = addRoute wrap router subsystem ''metrics'' [''/metrics''] MethodsForGet
                 DefaultMiddlewares (MetricsHandler (handlers s)) hp;
          hp = addRoute wrap router subsystem ''quit'' [''/quit''] MethodsForGet
                 DefaultMiddlewares (QuitHandler (handlers s)) hp
      in hp)"

definition runPublicServer ::
  "('h, 'c, 'w) WrapHandler \<Rightarrow> string list \<Rightarrow> 'h serviceImpl \<Rightarrow> ('c, 'w) heap
     \<Rightarrow> ('c, 'w) heap" where
  "runPublicServer wrap MethodsForGet s hp =
     (let router = publicRouter s;
          hp = addRoute wrap router publicSubsystem ''root'' [''/''] MethodsForGet
                 DefaultMiddlewares (RootHandler (handlers s)) hp;
          hp = addRoute wrap router publicSubsystem ''version'' [''/service/version'']
                 MethodsForGet DefaultMiddlewares (VersionHandler (handlers s)) hp;
          hp = addRoute wrap router publicSubsystem ''liveness'' [''/service/liveness'']
                 MethodsForGet DefaultMiddlewares (LivenessHandler (handlers s)) hp;
          hp = addRoute wrap router publicSubsystem ''readiness'' [''/service/readiness'']
                 MethodsForGet DefaultMiddlewares (ReadinessHandler (handlers s)) hp
      in hp)"

subsection \<open>What a registration is expected to leave behind\<close>

text \<open>
  \<open>build\<close> is one call of \<open>Wrap\<close> with the arguments of the registration. The state of
  the wrapper after one build for each path of the list, in order:
\<close>

fun after_builds :: "('w \<Rightarrow> 'c \<times> 'w) \<Rightarrow> 'w \<Rightarrow> string list \<Rightarrow> 'w" where
  "after_builds build w [] = w"
| "after_builds build w (path # routes) = after_builds build (snd (build w)) routes"

text \<open>
  and the handler such a sequence of builds makes for the path \<open>p\<close>: the one of the last
  place where \<open>p\<close> stands in the list.
\<close>

fun built_for :: "('w \<Rightarrow> 'c \<times> 'w) \<Rightarrow> 'w \<Rightarrow> string list \<Rightarrow> string \<Rightarrow> 'c option" where
  "built_for build w [] p = None"
| "built_for build w (path # routes) p =
     (case built_for build (snd (build w)) routes p of
        Some c \<Rightarrow> Some c
      | None \<Rightarrow> if p = path then Some (fst (build w)) else None)"

text \<open>
  Two wrappers to observe \<open>addRoute\<close> with: one keeps the list of the calls it gets
  and returns its arguments as the composed handler, the other counts its calls and
  returns the handler as it is.
\<close>

type_synonym wrap_call = "string \<times> string \<times> Middleware list"

definition recording_wrap :: "('h, wrap_call \<times> 'h, wrap_call list) WrapHandler" where
  "recording_wrap subsystem name middlewares handler calls =
     (((subsystem, name, middlewares), handler), calls @ [(subsystem, name, middlewares)])"

definition counting_wrap :: "('h, 'h, nat) WrapHandler" where
  "counting_wrap subsystem name middlewares handler n = (handler, Suc n)"

definition empty_heap :: "'w \<Rightarrow> ('c, 'w) heap" where
  "empty_heap w = \<lparr>tables = (\<lambda>r. Map.empty), allocated = 0, wrapper = w\<rparr>"

definition numbered_handlers :: "nat Handlers" where
  "numbered_handlers =
     \<lparr>RootHandler = 0, LivenessHandler = 1, ReadinessHandler = 2, HealthHandler = 3,
      MetricsHandler = 4, QuitHandler = 5, VersionHandler = 6\<rparr>"

text \<open>
  A router factory that hands out the same router at every call, and the service that
  \<open>NewCustomService\<close> makes from it.
\<close>

definition same_router :: "('c, 'w) heap \<Rightarrow> nat \<times> ('c, 'w) heap" where
  "same_router hp = (0, hp)"

definition shared_service :: "nat serviceImpl \<times> (nat, nat) heap" where
  "shared_service = NewCustomService same_router numbered_handlers (empty_heap 0)"


section \<open>Middleware pipeline\<close>

text \<open>
  The middleware wrapper and the composition of a chain are outside service.go; of the
  package \<open>site\<close> only the tests are at hand. This section follows sections 3 and 4.1
  of the specification.
\<close>

subsection \<open>Handlers and what they act on\<close>

text \<open>
  Modelled from the spec: a handler returns nothing and fails only by an unrecovered
  fault (section 3, Handler). The fault carries the value it was raised with.
\<close>

datatype outcome = Returned | Faulted string

text \<open>
  Modelled from the spec: what the logger capability is given by the pipeline: the
  warning for an unrecognized kind, with the kind and the route; the error for a
  recovered fault, with the route name and the fault value; entry and exit of a handler
  with the elapsed time (section 4.1).
\<close>

datatype log_entry =
    UnknownMiddleware Middleware string
  | HandlerFault string string
  | HandlerEntry string
  | HandlerExit string int

datatype level = Info | Warn | Error

text \<open>
  Modelled from the spec: the level of each line: a warning for the unknown kind, an
  error for the fault, one fixed level for request logging (section 4.1).
\<close>

fun level_of :: "log_entry \<Rightarrow> level" where
  "level_of (UnknownMiddleware kind name) = Warn"
| "level_of (HandlerFault name fault) = Error"
| "level_of (HandlerEntry name) = Info"
| "level_of (HandlerExit name elapsed) = Info"

text \<open>Modelled from the spec: the allow-lists the CORS middleware is configured with.\<close>

record CORSOptions =
  AllowedOrigins :: "string list"
  AllowedMethods :: "string list"

text \<open>
  Modelled from the spec: all that a dispatch can change and a middleware can see: the
  wrapped response sink with the status written, if any, and the response headers
  (section 3), the lines given to the logger, the counter increments and histogram
  observations given to the metrics capability (section 6), and the wall clock.
\<close>

record world =
  status :: "nat option"
  headers :: "string \<rightharpoonup> string list"
  logged :: "log_entry list"
  counts :: "(string \<times> string \<times> nat option) list"
  observations :: "(string \<times> string \<times> int) list"
  clock :: int

text \<open>
  Modelled from the spec: a handler is a closure. Besides the world it acts on the
  variables it has captured, of type \<open>'e\<close>, which no middleware can reach. The request and
  the route parameters are read-only and fixed during a dispatch, so they are part
  of the handler here.
\<close>

type_synonym 'e Handle = "'e \<times> world \<Rightarrow> outcome \<times> 'e \<times> world"

definition final :: "outcome \<times> 'e \<times> world \<Rightarrow> world" where
  "final r = snd (snd r)"

subsection \<open>The six kinds\<close>

text \<open>
  Modelled from the spec: \<open>PanicRecovery\<close> runs the inner handler in a guarded scope; a
  fault is caught, logged as an error with the route name and the fault value, and the
  status becomes 500 if none was written (section 4.1).
\<close>

definition wrapWithPanicRecovery :: "string \<Rightarrow> 'e Handle \<Rightarrow> 'e Handle" where
  "wrapWithPanicRecovery name h =
     (\<lambda>(e, w). case h (e, w) of
        (Returned, e', w') \<Rightarrow> (Returned, e', w')
      | (Faulted fault, e', w') \<Rightarrow>
          (Returned, e',
           w'\<lparr>logged := logged w' @ [HandlerFault name fault],
              status := (case status w' of None \<Rightarrow> Some 500 | Some c \<Rightarrow> Some c)\<rparr>))"

text \<open>
  Modelled from the spec: \<open>RequestLogging\<close> logs the entry of the handler, and its exit
  with the elapsed time (section 4.1). Section 4.1 says of \<open>Counter\<close> and \<open>Histogram\<close>
  only that they act whatever the outcome, so here a fault passes through without
  the exit line.
\<close>

definition wrapWithRequestLogging :: "string \<Rightarrow> 'e Handle \<Rightarrow> 'e Handle" where
  "wrapWithRequestLogging name h =
     (\<lambda>(e, w). case h (e, w\<lparr>logged := logged w @ [HandlerEntry name]\<rparr>) of
        (Returned, e', w') \<Rightarrow>
          (Returned, e', w'\<lparr>logged := logged w' @ [HandlerExit name (clock w' - clock w)]\<rparr>)
      | (Faulted fault, e', w') \<Rightarrow> (Faulted fault, e', w'))"

text \<open>
  Modelled from the spec: \<open>NoCaching\<close> sets the headers that forbid caching before the
  dispatch, always (section 4.1).
\<close>

definition wrapWithNoCaching :: "'e Handle \<Rightarrow> 'e Handle" where
  "wrapWithNoCaching h =
     (\<lambda>(e, w). h (e, w\<lparr>headers := (headers w)
                          (''Cache-Control'' \<mapsto> [''no-cache, no-store''],
                           ''Pragma'' \<mapsto> [''no-cache''])\<rparr>))"

text \<open>
  Modelled from the spec: \<open>CORS\<close> sets the two allow headers from the configured lists
  before the dispatch and never answers in the handler's place (section 4.1).
\<close>

definition wrapWithCORS :: "CORSOptions \<Rightarrow> 'e Handle \<Rightarrow> 'e Handle" where
  "wrapWithCORS opts h =
     (\<lambda>(e, w). h (e, w\<lparr>headers := (headers w)
                          (''Access-Control-Allow-Origin'' \<mapsto> AllowedOrigins opts,
                           ''Access-Control-Allow-Methods'' \<mapsto> AllowedMethods opts)\<rparr>))"

text \<open>
  Modelled from the spec: \<open>Counter\<close> increments, after the dispatch and whatever its
  outcome, a counter labelled with subsystem, route name and status (section 4.1); the
  outcome goes on to the caller.
\<close>

definition wrapWithCounter :: "string \<Rightarrow> string \<Rightarrow> 'e Handle \<Rightarrow> 'e Handle" where
  "wrapWithCounter subsystem name h =
     (\<lambda>(e, w). case h (e, w) of
        (out, e', w') \<Rightarrow> (out, e', w'\<lparr>counts := counts w' @ [(subsystem, name, status w')]\<rparr>))"

text \<open>
  Modelled from the spec: \<open>Histogram\<close> records the time between the moment just before
  the inner handler and the moment just after it, also when the handler faults and an
  outer \<open>PanicRecovery\<close> recovers (section 4.1): the fault goes on to the caller.
\<close>

definition wrapWithHistogram :: "string \<Rightarrow> string \<Rightarrow> 'e Handle \<Rightarrow> 'e Handle" where
  "wrapWithHistogram subsystem name h =
     (\<lambda>(e, w). case h (e, w) of
        (out, e', w') \<Rightarrow>
          (out, e',
           w'\<lparr>observations := observations w' @ [(subsystem, name, clock w' - clock w)]\<rparr>))"

subsection \<open>Composition\<close>

text \<open>Modelled from the spec: the six kinds are the recognized ones (section 3).\<close>

fun is_recognized :: "Middleware \<Rightarrow> bool" where
  "is_recognized (Unrecognized k) = False"
| "is_recognized _ = True"

text \<open>
  Modelled from the spec: the wrap of one kind. It returns the wrapped handler and the
  lines given to the logger while wrapping: for an unrecognized kind a warning with the
  kind and the route, and the handler as it was (section 4.1, Unknown kind).
\<close>

definition Wrap ::
  "CORSOptions \<Rightarrow> string \<Rightarrow> string \<Rightarrow> Middleware \<Rightarrow> 'e Handle \<Rightarrow> log_entry list
     \<Rightarrow> 'e Handle \<times> log_entry list" where
  "Wrap opts subsystem name kind h lg =
     (case kind of
        PanicTo500 \<Rightarrow> (wrapWithPanicRecovery name h, lg)
      | RequestLogging \<Rightarrow> (wrapWithRequestLogging name h, lg)
      | NoCaching \<Rightarrow> (wrapWithNoCaching h, lg)
      | CORS \<Rightarrow> (wrapWithCORS opts h, lg)
      | Counter \<Rightarrow> (wrapWithCounter subsystem name h, lg)
      | Histogram \<Rightarrow> (wrapWithHistogram subsystem name h, lg)
      | Unrecognized k \<Rightarrow> (h, lg @ [UnknownMiddleware kind name]))"

text \<open>
  Modelled from the spec: \<open>Compose(subsystem, name, chain, baseHandler)\<close>. Each kind wraps
  what the rest of the chain has composed, so the chain \<open>[A, B]\<close> gives \<open>A(B(baseHandler))\<close>;
  the empty chain gives the handler itself (section 4.1).
\<close>

fun Compose ::
  "CORSOptions \<Rightarrow> string \<Rightarrow> string \<Rightarrow> Middleware list \<Rightarrow> 'e Handle \<Rightarrow> log_entry list
     \<Rightarrow> 'e Handle \<times> log_entry list" where
  "Compose opts subsystem name [] h lg = (h, lg)"
| "Compose opts subsystem name (kind # chain) h lg =
     (case Compose opts subsystem name chain h lg of
        (inner, lg') \<Rightarrow> Wrap opts subsystem name kind inner lg')"

subsection \<open>Observing a dispatch\<close>

text \<open>
  As the test \<open>TestMiddlewareWrapperImpl_Wrap\<close> (middleware_test.go, lines 23-26) gives
  the wrapper a handler that sets a captured flag, \<open>probe h\<close> is \<open>h\<close> with a captured
  counter that goes up by one each time the handler is invoked.
\<close>

definition probe :: "'e Handle \<Rightarrow> (nat \<times> 'e) Handle" where
  "probe h = (\<lambda>((n, e), w). case h (e, w) of (out, e', w') \<Rightarrow> (out, (Suc n, e'), w'))"

definition invocations :: "outcome \<times> (nat \<times> 'e) \<times> world \<Rightarrow> nat" where
  "invocations r = fst (fst (snd r))"

definition once :: "(nat \<times> 'e) Handle \<Rightarrow> bool" where
  "once g = (\<forall>n e w. invocations (g ((n, e), w)) = Suc n)"

text \<open>
  The world in which a chain hands the dispatch to the base handler: what its kinds
  do before they call the inner handler, the outermost first. Request logging has logged
  the entry, \<open>NoCaching\<close> and \<open>CORS\<close> have set their headers; the other kinds do nothing
  before the call.
\<close>

fun enter_kind :: "CORSOptions \<Rightarrow> string \<Rightarrow> Middleware \<Rightarrow> world \<Rightarrow> world" where
  "enter_kind opts name RequestLogging w = w\<lparr>logged := logged w @ [HandlerEntry name]\<rparr>"
| "enter_kind opts name NoCaching w =
     w\<lparr>headers := (headers w)
          (''Cache-Control'' \<mapsto> [''no-cache, no-store''], ''Pragma'' \<mapsto> [''no-cache''])\<rparr>"
| "enter_kind opts name CORS w =
     w\<lparr>headers := (headers w)
          (''Access-Control-Allow-Origin'' \<mapsto> AllowedOrigins opts,
           ''Access-Control-Allow-Methods'' \<mapsto> AllowedMethods opts)\<rparr>"
| "enter_kind opts name kind w = w"

fun entering :: "CORSOptions \<Rightarrow> string \<Rightarrow> Middleware list \<Rightarrow> world \<Rightarrow> world" where
  "entering opts name [] w = w"
| "entering opts name (kind # chain) w = entering opts name chain (enter_kind opts name kind w)"

text \<open>
  The status that recovery leaves, and the two states the dispatch of a handler that
  has faulted can be in on its way out through the chain: the fault still in flight, with
  the status \<open>st\<close> as the handler left it, or caught, logged and the status forced.
\<close>

definition forced :: "nat option \<Rightarrow> nat option" where
  "forced st = (case st of None \<Rightarrow> Some 500 | Some c \<Rightarrow> Some c)"

definition caught :: "string \<Rightarrow> string \<Rightarrow> nat option \<Rightarrow> outcome \<times> 'e \<times> world \<Rightarrow> bool" where
  "caught name fault st r =
     (fst r = Returned \<and> HandlerFault name fault \<in> set (logged (final r))
      \<and> status (final r) = forced st)"

definition in_flight :: "string \<Rightarrow> string \<Rightarrow> nat option \<Rightarrow> outcome \<times> 'e \<times> world \<Rightarrow> bool" where
  "in_flight name fault st r =
     ((fst r = Faulted fault \<and> status (final r) = st) \<or> caught name fault st r)"

text \<open>
  A handler with a captured flag: it faults, as the handler of the test
  \<open>TestMiddlewareWrapperImpl_Wrap_PanicsAreHandled\<close> does (middleware_test.go, lines
  88-90), when the flag is set, and clears the flag; otherwise it returns. Then a world
  in which nothing has happened yet, and the empty CORS configuration of the tests.
\<close>

definition armed :: "bool Handle" where
  "armed = (\<lambda>(e, w). if e then (Faulted ''whoa'', False, w) else (Returned, e, w))"

definition blank :: world where
  "blank = \<lparr>status = None, headers = Map.empty, logged = [], counts = [], observations = [],
            clock = 0\<rparr>"

definition no_cors :: CORSOptions where
  "no_cors = \<lparr>AllowedOrigins = [], AllowedMethods = []\<rparr>"



section \<open>Properties of the shutdown coordinator\<close>

subsection \<open>What the other goroutines leave alone\<close>

lemma effect_frame [simp]:
  "quitting (effect e s) = quitting s" "trace (effect e s) = trace s" "at (effect e s) = at s"
  "sendChan (effect e s) = sendChan s" "servers (effect e s) = servers s"
  "receiveChan (effect e s) = receiveChan s" "doneChan (effect e s) = doneChan s"
  "fired (effect e s) = fired s"
  by (cases e; simp)+

lemma effects_frame [simp]:
  "quitting (effects es s) = quitting s" "trace (effects es s) = trace s"
  "at (effects es s) = at s" "sendChan (effects es s) = sendChan s"
  "servers (effects es s) = servers s" "receiveChan (effects es s) = receiveChan s"
  "doneChan (effects es s) = doneChan s" "fired (effects es s) = fired s"
  by (induction es arbitrary: s; simp)+

lemma other_steps_frame:
  assumes "listener_step i s = Some s' \<or> watcher_step i s = Some s' \<or> goroutine_step i s = Some s'"
  shows "quitting s' = quitting s \<and> trace s' = trace s \<and> at s' = at s"
  using assms
  by (auto simp: listener_step_def watcher_step_def goroutine_step_def Let_def
           split: if_splits listener_state.splits watcher_state.splits option.splits list.splits)

subsection \<open>At most one shutdown\<close>

lemma coord_inv_init: "coord_inv init"
  by (simp add: coord_inv_def init_def flips_def broadcasts_def exit_calls_def)

lemma coord_step_inv:
  assumes "coord_inv s" and "coord_step exitFunc t s = Some s'"
  shows "coord_inv s'"
  using assms
  by (cases "at s"; cases t)
     (auto simp: coord_inv_def coord_step_def write_quitting_def send_stop_def chan_send_def
                 flips_def broadcasts_def exit_calls_def Let_def
           split: option.splits if_splits list.splits)

lemma perform_inv:
  assumes "perform exitFunc a s = Some s'" and "coord_inv s"
  shows "coord_inv s'"
proof (cases a)
  case (Fire t)
  with assms show ?thesis by (auto simp: perform_def coord_inv_def split: if_splits)
next
  case (Coord t)
  with assms show ?thesis by (auto simp: perform_def intro: coord_step_inv split: if_splits)
next
  case (Listener i)
  with assms other_steps_frame [of i s s'] show ?thesis
    by (auto simp: perform_def coord_inv_def split: if_splits)
next
  case (Watcher i)
  with assms other_steps_frame [of i s s'] show ?thesis
    by (auto simp: perform_def coord_inv_def split: if_splits)
next
  case (Goroutine i)
  with assms other_steps_frame [of i s s'] show ?thesis
    by (auto simp: perform_def coord_inv_def split: if_splits)
qed

lemma reachable_inv: "reachable exitFunc s \<Longrightarrow> coord_inv s"
  unfolding reachable_def
  by (induction rule: rtranclp_induct) (auto intro: coord_inv_init perform_inv elim: step.cases)

lemma coord_inv_bounds:
  "coord_inv s \<Longrightarrow>
     flips (trace s) \<le> 1 \<and> broadcasts (trace s) \<le> 1 \<and> exit_calls (trace s) \<le> 1"
  by (cases "at s") (auto simp: coord_inv_def Let_def)

text \<open>
  C1. In every state a run can reach, whichever triggers have fired, in whatever order
  and however the goroutines have interleaved, the arbitration goroutine has switched
  \<open>quitting\<close> from false to true at most once, has sent the stop signal at most once and
  has called the exit function at most once. A trigger that fires after the first one
  is only one more step of such a run.
\<close>

theorem shutdown_at_most_once:
  "reachable exitFunc s \<Longrightarrow>
     flips (trace s) \<le> 1 \<and> broadcasts (trace s) \<le> 1 \<and> exit_calls (trace s) \<le> 1"
  by (rule coord_inv_bounds) (rule reachable_inv)

subsection \<open>Invariants for the order, the stop values and the exit codes\<close>





lemma reachable_init: "reachable exitFunc init"
  unfolding reachable_def by simp

lemma reachable_step:
  "reachable exitFunc s \<Longrightarrow> step exitFunc s s' \<Longrightarrow> reachable exitFunc s'"
  unfolding reachable_def by (rule rtranclp.rtrancl_into_rtrancl)

lemma run_all_reachable:
  "reachable exitFunc s \<Longrightarrow> reachable exitFunc (run_all exitFunc acts s)"
proof (induction acts arbitrary: s)
  case Nil
  then show ?case by simp
next
  case (Cons a acts)
  show ?case
  proof (cases "perform exitFunc a s")
    case None
    with Cons show ?thesis by simp
  next
    case (Some s')
    then have "step exitFunc s s'" by (rule step.act)
    with Cons.prems have "reachable exitFunc s'" by (rule reachable_step)
    with Cons.IH Some show ?thesis by simp
  qed
qed
























subsection \<open>Runs by schedule\<close>

lemmas run_defs = perform_def coord_step_def listener_step_def watcher_step_def
  goroutine_step_def write_quitting_def send_stop_def chan_send_def init_def
  NewExitFunc_def exit_goroutine_def exit_tail_def listeners_up_def shutdown_run_def
  deliver_def Let_def eval_nat_numeral




lemma both_fired_reachable: "reachable (NewExitFunc None) both_fired"
  unfolding both_fired_def by (rule run_all_reachable) (rule reachable_init)

lemma both_fired_state:
  "receiveChan both_fired = [True]" "fired both_fired = {Cancelled}" "at both_fired = Ended"
  "trace both_fired =
     [Debug ''GracefulShutdown'' ''Handling Sigterm/SigInt'', WriteQuitting False True,
      SendStop, CallExitFunc 0 (NewExitFunc None 0)]"
  by (simp_all add: both_fired_def run_defs)

theorem shutdown_at_most_once_witness:
  "reachable (NewExitFunc None) both_fired
   \<and> receiveChan both_fired = [True] \<and> Cancelled \<in> fired both_fired
   \<and> at both_fired = Ended
   \<and> flips (trace both_fired) \<le> 1 \<and> broadcasts (trace both_fired) \<le> 1
   \<and> exit_calls (trace both_fired) \<le> 1"
  using shutdown_at_most_once [OF both_fired_reachable] both_fired_reachable
  by (simp add: both_fired_state)


subsection \<open>The order of a shutdown\<close>



subsection \<open>The exit code\<close>

text \<open>
  The model has the run in which a watcher sets \<open>svr\<close> to \<open>nil\<close> before the listener of
  the same server has read it: the process ends by the panic, without \<open>os.Exit\<close>.
\<close>

lemma early_stop_crashes: "ended (run_all (NewExitFunc None) early_stop init) = Some Crashed"
  by (simp add: early_stop_def run_defs)





section \<open>Properties of the state reader and of route registration\<close>

subsection \<open>The default state reader\<close>

text \<open>
  C9. The reader that \<open>NewServiceStateReader\<close> returns answers true to \<open>IsLive\<close>, to
  \<open>IsReady\<close> and to \<open>IsHealthy\<close>, and to every call of any sequence of calls of the three.
\<close>

theorem default_state_reader_true:
  "IsLive NewServiceStateReader () \<and> IsReady NewServiceStateReader ()
   \<and> IsHealthy NewServiceStateReader ()
   \<and> map (ask NewServiceStateReader) qs = replicate (length qs) True"
proof -
  have "ask NewServiceStateReader q = True" for q
    by (cases q) (simp_all add: NewServiceStateReader_def)
  then have "map (ask NewServiceStateReader) qs = replicate (length qs) True"
    by (induction qs) simp_all
  then show ?thesis by (simp add: NewServiceStateReader_def)
qed

subsection \<open>What \<open>addRoute\<close> does to the store\<close>

lemma addRoute_methods_tables:
  "tables (addRoute_methods router path wh methods hp) r k =
     (if r = router \<and> fst k \<in> set methods \<and> snd k = path then Some wh else tables hp r k)"
  by (induction methods arbitrary: hp) (auto simp: Router_Handle_def)

lemma addRoute_methods_wrapper [simp]:
  "wrapper (addRoute_methods router path wh methods hp) = wrapper hp"
  by (induction methods arbitrary: hp) (simp_all add: Router_Handle_def)

lemma addRoute_wrapper:
  "wrapper (addRoute wrap router subsystem name routes methods middlewares handler hp) =
     after_builds (wrap subsystem name middlewares handler) (wrapper hp) routes"
  by (induction routes arbitrary: hp) (simp_all add: case_prod_unfold)

lemma built_for_None: "built_for build w routes p = None \<longleftrightarrow> p \<notin> set routes"
proof (induction routes arbitrary: w)
  case Nil
  show ?case by simp
next
  case (Cons path routes)
  show ?case
    using Cons.IH [of "snd (build w)"]
    by (cases "built_for build (snd (build w)) routes p") auto
qed

lemma built_for_notin: "p \<notin> set routes \<Longrightarrow> built_for build w routes p = None"
  by (simp add: built_for_None)

lemma built_for_in: "p \<in> set routes \<Longrightarrow> \<exists>c. built_for build w routes p = Some c"
  using built_for_None [of build w routes p] by auto

lemma built_for_NoneD: "built_for build w routes p = None \<Longrightarrow> p \<notin> set routes"
  by (simp add: built_for_None)

lemma addRoute_tables:
  "tables (addRoute wrap router subsystem name routes methods middlewares handler hp) r (m, p) =
     (if r = router \<and> m \<in> set methods \<and> p \<in> set routes
      then built_for (wrap subsystem name middlewares handler) (wrapper hp) routes p
      else tables hp r (m, p))"
proof (induction routes arbitrary: hp)
  case Nil
  show ?case by simp
next
  case (Cons path routes)
  show ?case
    by (auto simp: Cons.IH case_prod_unfold addRoute_methods_tables built_for_notin
             split: option.splits dest: built_for_NoneD)
qed

lemma addRoute_frame:
  "r \<noteq> router \<Longrightarrow>
     tables (addRoute wrap router subsystem name routes methods middlewares handler hp) r
       = tables hp r"
  by (rule ext) (simp add: addRoute_tables split_paired_all)

lemma addRoute_dom:
  "dom (tables (addRoute wrap router subsystem name routes methods middlewares handler hp) router)
     = dom (tables hp router) \<union> set methods \<times> set routes"
  using built_for_in [of _ routes "wrap subsystem name middlewares handler" "wrapper hp"]
  by (auto simp: addRoute_tables dom_def split: if_splits)

lemma recording_after_builds:
  "after_builds (recording_wrap subsystem name middlewares handler) calls routes =
     calls @ replicate (length routes) (subsystem, name, middlewares)"
  by (induction routes arbitrary: calls)
     (simp_all add: recording_wrap_def replicate_app_Cons_same)

subsection \<open>One registration\<close>

text \<open>
  C7, as the claim has it, fails: a registration of one path with two methods makes
  one call of the pipeline, where there are two combinations of path and method.
\<close>

theorem one_build_per_pair_counterexample:
  "wrapper (addRoute counting_wrap 0 ''public'' ''ping'' [''/ping''] [''GET'', ''POST''] [Counter]
              () (empty_heap 0 :: (unit, nat) heap)) = 1
   \<and> length (List.product [''/ping''] [''GET'', ''POST'']) = 2"
  by (simp add: counting_wrap_def empty_heap_def Router_Handle_def)

text \<open>
  C7, amended. A registration with the paths \<open>routes\<close> and the methods \<open>methods\<close> calls the
  pipeline once for each path of the list, in order, whatever the methods. Afterwards the
  table of the router maps each pair of a method of \<open>methods\<close> and a path \<open>p\<close> of \<open>routes\<close> to
  the handler composed for \<open>p\<close>, one and the same for all the methods, and every other
  pair to what it was mapped to before.
\<close>

theorem addRoute_registers_pairs:
  "wrapper (addRoute wrap router subsystem name routes methods middlewares handler hp) =
     after_builds (wrap subsystem name middlewares handler) (wrapper hp) routes
   \<and> (p \<in> set routes \<and> m \<in> set methods \<longrightarrow>
        tables (addRoute wrap router subsystem name routes methods middlewares handler hp)
            router (m, p)
          = built_for (wrap subsystem name middlewares handler) (wrapper hp) routes p
        \<and> built_for (wrap subsystem name middlewares handler) (wrapper hp) routes p \<noteq> None)
   \<and> (p \<notin> set routes \<or> m \<notin> set methods \<longrightarrow>
        tables (addRoute wrap router subsystem name routes methods middlewares handler hp)
            router (m, p)
          = tables hp router (m, p))"
  by (simp add: addRoute_wrapper addRoute_tables built_for_None)

theorem addRoute_registers_pairs_witness:
  "''/ping'' \<in> set [''/ping''] \<and> ''POST'' \<in> set [''GET'', ''POST'']
   \<and> wrapper (addRoute counting_wrap 0 ''public'' ''ping'' [''/ping''] [''GET'', ''POST'']
                [Counter] (7::nat) (empty_heap 0)) = 1
   \<and> tables (addRoute counting_wrap 0 ''public'' ''ping'' [''/ping''] [''GET'', ''POST'']
                [Counter] (7::nat) (empty_heap 0)) 0 (''POST'', ''/ping'') = Some 7"
  using addRoute_registers_pairs [where wrap = counting_wrap and router = 0
      and subsystem = "''public''" and name = "''ping''" and routes = "[''/ping'']"
      and methods = "[''GET'', ''POST'']" and middlewares = "[Counter]"
      and handler = "7::nat" and hp = "empty_heap 0" and p = "''/ping''" and m = "''POST''"]
  by (simp add: counting_wrap_def empty_heap_def)

subsection \<open>The routes of the three servers\<close>

text \<open>
  C8. With a wrapper that keeps the list of its calls, the readiness server asks for
  the routes root, liveness and readiness and for no other, the internal server for
  root, health_check (once for each of its two paths), metrics and quit, the public
  server for root, version, liveness and readiness, each of them with the chain
  \<open>[PanicTo500, RequestLogging, NoCaching]\<close>, which is \<open>DefaultMiddlewares\<close>. With any
  wrapper, the pairs each server adds to its routing table are those of the methods of
  \<open>MethodsForGet\<close> with the paths of these routes.
\<close>

theorem builtin_routes:
  "wrapper (runReadinessServer recording_wrap MethodsForGet s hp) =
     wrapper hp @ [(''readiness'', ''root'', [PanicTo500, RequestLogging, NoCaching]),
                   (''readiness'', ''liveness'', [PanicTo500, RequestLogging, NoCaching]),
                   (''readiness'', ''readiness'', [PanicTo500, RequestLogging, NoCaching])]
   \<and> wrapper (runInternalServer recording_wrap MethodsForGet s hp) =
     wrapper hp @ [(''internal'', ''root'', [PanicTo500, RequestLogging, NoCaching]),
                   (''internal'', ''health_check'', [PanicTo500, RequestLogging, NoCaching]),
                   (''internal'', ''health_check'', [PanicTo500, RequestLogging, NoCaching]),
                   (''internal'', ''metrics'', [PanicTo500, RequestLogging, NoCaching]),
                   (''internal'', ''quit'', [PanicTo500, RequestLogging, NoCaching])]
   \<and> wrapper (runPublicServer recording_wrap MethodsForGet s hp) =
     wrapper hp @ [(''public'', ''root'', [PanicTo500, RequestLogging, NoCaching]),
                   (''public'', ''version'', [PanicTo500, RequestLogging, NoCaching]),
                   (''public'', ''liveness'', [PanicTo500, RequestLogging, NoCaching]),
                   (''public'', ''readiness'', [PanicTo500, RequestLogging, NoCaching])]
   \<and> DefaultMiddlewares = [PanicTo500, RequestLogging, NoCaching]
   \<and> dom (tables (runReadinessServer wrap MethodsForGet s hp') (readinessRouter s)) =
       dom (tables hp' (readinessRouter s))
       \<union> set MethodsForGet \<times> {''/'', ''/service/liveness'', ''/service/readiness''}
   \<and> dom (tables (runInternalServer wrap MethodsForGet s hp') (internalRouter s)) =
       dom (tables hp' (internalRouter s))
       \<union> set MethodsForGet \<times> {''/'', ''/health_check'', ''/healthz'', ''/metrics'', ''/quit''}
   \<and> dom (tables (runPublicServer wrap MethodsForGet s hp') (publicRouter s)) =
       dom (tables hp' (publicRouter s))
       \<union> set MethodsForGet
           \<times> {''/'', ''/service/version'', ''/service/liveness'', ''/service/readiness''}"
proof -
  have calls:
    "wrapper (runReadinessServer recording_wrap MethodsForGet s hp) =
       wrapper hp @ [(''readiness'', ''root'', [PanicTo500, RequestLogging, NoCaching]),
                     (''readiness'', ''liveness'', [PanicTo500, RequestLogging, NoCaching]),
                     (''readiness'', ''readiness'', [PanicTo500, RequestLogging, NoCaching])]"
    "wrapper (runInternalServer recording_wrap MethodsForGet s hp) =
       wrapper hp @ [(''internal'', ''root'', [PanicTo500, RequestLogging, NoCaching]),
                     (''internal'', ''health_check'', [PanicTo500, RequestLogging, NoCaching]),
                     (''internal'', ''health_check'', [PanicTo500, RequestLogging, NoCaching]),
                     (''internal'', ''metrics'', [PanicTo500, RequestLogging, NoCaching]),
                     (''internal'', ''quit'', [PanicTo500, RequestLogging, NoCaching])]"
    "wrapper (runPublicServer recording_wrap MethodsForGet s hp) =
       wrapper hp @ [(''public'', ''root'', [PanicTo500, RequestLogging, NoCaching]),
                     (''public'', ''version'', [PanicTo500, RequestLogging, NoCaching]),
                     (''public'', ''liveness'', [PanicTo500, RequestLogging, NoCaching]),
                     (''public'', ''readiness'', [PanicTo500, RequestLogging, NoCaching])]"
    by (simp_all add: runReadinessServer_def runInternalServer_def runPublicServer_def
                      addRoute_wrapper recording_after_builds DefaultMiddlewares_def
                      publicSubsystem_def recording_wrap_def Let_def
                 del: addRoute.simps)
  have doms:
    "dom (tables (runReadinessServer wrap MethodsForGet s hp') (readinessRouter s)) =
       dom (tables hp' (readinessRouter s))
       \<union> set MethodsForGet \<times> {''/'', ''/service/liveness'', ''/service/readiness''}"
    "dom (tables (runInternalServer wrap MethodsForGet s hp') (internalRouter s)) =
       dom (tables hp' (internalRouter s))
       \<union> set MethodsForGet \<times> {''/'', ''/health_check'', ''/healthz'', ''/metrics'', ''/quit''}"
    "dom (tables (runPublicServer wrap MethodsForGet s hp') (publicRouter s)) =
       dom (tables hp' (publicRouter s))
       \<union> set MethodsForGet
           \<times> {''/'', ''/service/version'', ''/service/liveness'', ''/service/readiness''}"
    by (auto simp: runReadinessServer_def runInternalServer_def runPublicServer_def
                   addRoute_dom Let_def
             simp del: addRoute.simps)
  from calls doms show ?thesis by (simp add: DefaultMiddlewares_def)
qed

subsection \<open>The frame of \<open>AddRoute\<close>\<close>

lemma NewCustomService_distinct:
  "NewCustomService NewRouter hs hp = (s, hp') \<Longrightarrow>
     readinessRouter s \<noteq> publicRouter s \<and> internalRouter s \<noteq> publicRouter s
     \<and> internalRouter s \<noteq> readinessRouter s"
  by (auto simp: NewCustomService_def NewRouter_def)

text \<open>
  C10, as the claim has it, fails: \<open>NewCustomService\<close> takes its routers from the
  factory of the options, and when that factory hands out one router for all three
  servers, \<open>AddRoute\<close> changes the routing table of the readiness server and of the
  internal server.
\<close>

theorem AddRoute_shared_router_counterexample:
  "readinessRouter (fst shared_service) = publicRouter (fst shared_service)
   \<and> internalRouter (fst shared_service) = publicRouter (fst shared_service)
   \<and> tables (snd shared_service) (readinessRouter (fst shared_service)) (''GET'', ''/ping'')
       = None
   \<and> tables (AddRoute counting_wrap (fst shared_service) ''ping'' [''/ping''] [''GET'']
               [Counter] 7 (snd shared_service))
         (readinessRouter (fst shared_service)) (''GET'', ''/ping'') = Some 7
   \<and> tables (snd shared_service) (internalRouter (fst shared_service)) (''GET'', ''/ping'')
       = None
   \<and> tables (AddRoute counting_wrap (fst shared_service) ''ping'' [''/ping''] [''GET'']
               [Counter] 7 (snd shared_service))
         (internalRouter (fst shared_service)) (''GET'', ''/ping'') = Some 7"
  by (simp add: shared_service_def NewCustomService_def same_router_def empty_heap_def
                AddRoute_def counting_wrap_def Router_Handle_def)

text \<open>
  C10, amended. In a service whose readiness and internal routers are not the public
  router, as in every service that \<open>NewCustomService\<close> makes from a factory of new routers,
  \<open>AddRoute\<close> leaves the routing tables of the readiness and of the internal router as
  they were. It adds to the table of the public router the pairs of the given methods
  and paths, and it calls the pipeline with the subsystem \<open>public\<close>.
\<close>

theorem AddRoute_only_public:
  assumes "readinessRouter s \<noteq> publicRouter s" and "internalRouter s \<noteq> publicRouter s"
  shows "tables (AddRoute wrap s name routes methods middlewares handler hp) (readinessRouter s)
           = tables hp (readinessRouter s)
    \<and> tables (AddRoute wrap s name routes methods middlewares handler hp) (internalRouter s)
           = tables hp (internalRouter s)
    \<and> dom (tables (AddRoute wrap s name routes methods middlewares handler hp) (publicRouter s))
           = dom (tables hp (publicRouter s)) \<union> set methods \<times> set routes
    \<and> wrapper (AddRoute wrap s name routes methods middlewares handler hp)
           = after_builds (wrap ''public'' name middlewares handler) (wrapper hp) routes"
  using assms
  by (simp add: AddRoute_def addRoute_frame addRoute_wrapper addRoute_dom publicSubsystem_def)

theorem AddRoute_only_public_witness:
  "(let (s, hp) = NewCustomService NewRouter numbered_handlers (empty_heap 0 :: (nat, nat) heap);
        hp' = AddRoute counting_wrap s ''ping'' [''/ping''] [''GET''] [Counter] 7 hp
    in readinessRouter s \<noteq> publicRouter s \<and> internalRouter s \<noteq> publicRouter s
       \<and> tables hp' (readinessRouter s) = tables hp (readinessRouter s)
       \<and> tables hp' (internalRouter s) = tables hp (internalRouter s)
       \<and> dom (tables hp' (publicRouter s)) = {(''GET'', ''/ping'')})"
proof -
  obtain s hp where
    n: "NewCustomService NewRouter numbered_handlers (empty_heap 0 :: (nat, nat) heap) = (s, hp)"
    by (cases "NewCustomService NewRouter numbered_handlers (empty_heap 0 :: (nat, nat) heap)")
  have d: "readinessRouter s \<noteq> publicRouter s" "internalRouter s \<noteq> publicRouter s"
    using NewCustomService_distinct [OF n] by simp_all
  have e: "dom (tables hp (publicRouter s)) = {}"
    using n by (auto simp: NewCustomService_def NewRouter_def empty_heap_def)
  show ?thesis
    using AddRoute_only_public [OF d, of counting_wrap "''ping''" "[''/ping'']" "[''GET'']"
        "[Counter]" 7 hp] d e n
    by simp
qed


section \<open>Properties of the middleware pipeline\<close>

subsection \<open>Composition, one kind at a time\<close>

lemma Compose_Cons:
  "Compose opts subsystem name (kind # chain) h lg =
     Wrap opts subsystem name kind (fst (Compose opts subsystem name chain h lg))
       (snd (Compose opts subsystem name chain h lg))"
  by (simp add: case_prod_unfold)

lemma Compose_append:
  "Compose opts subsystem name (outer @ rest) h lg =
     Compose opts subsystem name outer (fst (Compose opts subsystem name rest h lg))
       (snd (Compose opts subsystem name rest h lg))"
  by (induction outer) (simp_all add: case_prod_unfold)

lemma Wrap_snd:
  "snd (Wrap opts subsystem name kind h lg) =
     (if is_recognized kind then lg else lg @ [UnknownMiddleware kind name])"
  by (cases kind) (simp_all add: Wrap_def)

lemma Compose_log:
  "snd (Compose opts subsystem name chain h lg) =
     lg @ map (\<lambda>k. UnknownMiddleware k name) (rev (filter (\<lambda>k. \<not> is_recognized k) chain))"
  by (induction chain) (simp_all add: Compose_Cons Wrap_snd del: Compose.simps(2))

lemma Compose_drop_unknown:
  "fst (Compose opts subsystem name chain h lg) =
     fst (Compose opts subsystem name (filter is_recognized chain) h lg')"
proof (induction chain)
  case Nil
  show ?case by simp
next
  case (Cons kind chain)
  then show ?case
    by (cases kind) (simp_all add: Compose_Cons Wrap_def del: Compose.simps(2))
qed

lemma warnings_of_unknown:
  "filter (\<lambda>e. level_of e = Warn) (map (\<lambda>k. UnknownMiddleware k name) ks) =
     map (\<lambda>k. UnknownMiddleware k name) ks"
  by (induction ks) simp_all

subsection \<open>Unknown kinds\<close>

text \<open>
  C3. Composing a chain gives the logger one warning for each place of the chain where
  an unrecognized kind stands, naming that kind and the route, and nothing else. The
  handler it returns is the handler composed from the chain without those places; for
  a chain of one unrecognized kind it is the base handler. Composition is a total
  function that returns a handler: there is no error it could raise.
\<close>

theorem unknown_kind_passthrough:
  "snd (Compose opts subsystem name chain h lg) =
     lg @ map (\<lambda>k. UnknownMiddleware k name) (rev (filter (\<lambda>k. \<not> is_recognized k) chain))
   \<and> length (filter (\<lambda>e. level_of e = Warn) (snd (Compose opts subsystem name chain h []))) =
       length (filter (\<lambda>k. \<not> is_recognized k) chain)
   \<and> fst (Compose opts subsystem name chain h lg) =
       fst (Compose opts subsystem name (filter is_recognized chain) h lg)
   \<and> Compose opts subsystem name [Unrecognized k] h lg =
       (h, lg @ [UnknownMiddleware (Unrecognized k) name])"
  using Compose_drop_unknown [of opts subsystem name chain h lg lg]
  by (simp add: Compose_log warnings_of_unknown Wrap_def)

subsection \<open>One invocation of the base handler\<close>

lemma probe_once: "once (probe h)"
  by (simp add: once_def probe_def invocations_def split: prod.splits)

lemma env_wrappers:
  "fst (snd (wrapWithPanicRecovery name g (e, w))) = fst (snd (g (e, w)))"
  "fst (snd (wrapWithRequestLogging name g (e, w))) =
     fst (snd (g (e, w\<lparr>logged := logged w @ [HandlerEntry name]\<rparr>)))"
  "fst (snd (wrapWithNoCaching g (e, w))) =
     fst (snd (g (e, w\<lparr>headers := (headers w)
                          (''Cache-Control'' \<mapsto> [''no-cache, no-store''],
                           ''Pragma'' \<mapsto> [''no-cache''])\<rparr>)))"
  "fst (snd (wrapWithCORS opts g (e, w))) =
     fst (snd (g (e, w\<lparr>headers := (headers w)
                          (''Access-Control-Allow-Origin'' \<mapsto> AllowedOrigins opts,
                           ''Access-Control-Allow-Methods'' \<mapsto> AllowedMethods opts)\<rparr>)))"
  "fst (snd (wrapWithCounter subsystem name g (e, w))) = fst (snd (g (e, w)))"
  "fst (snd (wrapWithHistogram subsystem name g (e, w))) = fst (snd (g (e, w)))"
  by (simp_all add: wrapWithPanicRecovery_def wrapWithRequestLogging_def wrapWithNoCaching_def
                    wrapWithCORS_def wrapWithCounter_def wrapWithHistogram_def
                    case_prod_unfold split: outcome.splits)

lemma Wrap_once: "once g \<Longrightarrow> once (fst (Wrap opts subsystem name kind g lg))"
  unfolding once_def invocations_def
  by (cases kind) (simp_all add: Wrap_def env_wrappers)

lemma Compose_once: "once g \<Longrightarrow> once (fst (Compose opts subsystem name chain g lg))"
  by (induction chain) (simp_all add: Compose_Cons Wrap_once del: Compose.simps(2))

text \<open>
  C4. For every chain, with duplicates or empty, and every base handler, one dispatch
  of the composed handler takes the invocation counter of the base handler from \<open>n\<close> to
  \<open>n + 1\<close>: the base handler is invoked once, not more and not less. The empty chain
  composes to the handler itself.
\<close>

theorem base_handler_invoked_once:
  "invocations (fst (Compose opts subsystem name chain (probe h) lg) ((n, e), w)) = Suc n
   \<and> Compose opts subsystem name [] h lg = (h, lg)"
  using Compose_once [OF probe_once, of opts subsystem name chain h lg]
  by (simp add: once_def)

subsection \<open>A fault under \<open>PanicRecovery\<close>\<close>

lemma entering_append:
  "entering opts name (outer @ rest) w = entering opts name rest (entering opts name outer w)"
  by (induction outer arbitrary: w) simp_all

lemma Wrap_reads:
  assumes "g (e, enter_kind opts name kind w) = g' (e, enter_kind opts name kind w)"
  shows "fst (Wrap opts subsystem name kind g lg) (e, w)
           = fst (Wrap opts subsystem name kind g' lg') (e, w)"
  using assms
  by (cases kind)
     (simp_all add: Wrap_def wrapWithPanicRecovery_def wrapWithRequestLogging_def
                    wrapWithNoCaching_def wrapWithCORS_def wrapWithCounter_def
                    wrapWithHistogram_def)

lemma Compose_reads:
  assumes "h (e, entering opts name chain w) = h' (e, entering opts name chain w)"
  shows "fst (Compose opts subsystem name chain h lg) (e, w)
           = fst (Compose opts subsystem name chain h' lg') (e, w)"
  using assms
proof (induction chain arbitrary: w)
  case Nil
  then show ?case by simp
next
  case (Cons kind chain)
  from Cons.prems have
    "fst (Compose opts subsystem name chain h lg) (e, enter_kind opts name kind w)
       = fst (Compose opts subsystem name chain h' lg') (e, enter_kind opts name kind w)"
    by (intro Cons.IH) simp
  then show ?case
    by (simp add: Compose_Cons Wrap_reads del: Compose.simps(2))
qed

lemma recovery_seizes:
  assumes "in_flight name fault st (g (e, w))"
  shows "caught name fault st (wrapWithPanicRecovery name g (e, w))"
  using assms
  unfolding in_flight_def caught_def final_def wrapWithPanicRecovery_def
  by (cases "g (e, w)"; cases "fst (g (e, w))") (auto simp: forced_def split: option.splits)

lemma in_flight_stable:
  "in_flight name fault st (out, e, w) \<Longrightarrow> in_flight name fault st (out, e, w\<lparr>logged := logged w @ lg'\<rparr>)"
  "in_flight name fault st (out, e, w) \<Longrightarrow> in_flight name fault st (out, e, w\<lparr>counts := counts w @ c\<rparr>)"
  "in_flight name fault st (out, e, w) \<Longrightarrow>
     in_flight name fault st (out, e, w\<lparr>observations := observations w @ d\<rparr>)"
  by (auto simp: in_flight_def caught_def final_def)

lemma caught_stable:
  "caught name fault st (out, e, w) \<Longrightarrow> caught name fault st (out, e, w\<lparr>logged := logged w @ lg'\<rparr>)"
  "caught name fault st (out, e, w) \<Longrightarrow> caught name fault st (out, e, w\<lparr>counts := counts w @ c\<rparr>)"
  "caught name fault st (out, e, w) \<Longrightarrow>
     caught name fault st (out, e, w\<lparr>observations := observations w @ d\<rparr>)"
  by (auto simp: caught_def final_def)

lemma caught_returned: "caught name fault st (out, e, w) \<Longrightarrow> out = Returned"
  by (simp add: caught_def)

lemma Wrap_keeps_in_flight:
  assumes "in_flight name fault st (g (e, enter_kind opts name kind w))"
  shows "in_flight name fault st (fst (Wrap opts subsystem name kind g lg) (e, w))"
proof (cases kind)
  case PanicTo500
  with assms have "caught name fault st (wrapWithPanicRecovery name g (e, w))"
    by (simp add: recovery_seizes)
  with PanicTo500 show ?thesis by (simp add: Wrap_def in_flight_def)
next
  case RequestLogging
  with assms show ?thesis
    by (cases "g (e, w\<lparr>logged := logged w @ [HandlerEntry name]\<rparr>)";
        cases "fst (g (e, w\<lparr>logged := logged w @ [HandlerEntry name]\<rparr>))")
       (auto simp: Wrap_def wrapWithRequestLogging_def intro: in_flight_stable)
next
  case NoCaching
  with assms show ?thesis by (simp add: Wrap_def wrapWithNoCaching_def)
next
  case CORS
  with assms show ?thesis by (simp add: Wrap_def wrapWithCORS_def)
next
  case Counter
  with assms show ?thesis
    by (cases "g (e, w)") (auto simp: Wrap_def wrapWithCounter_def intro: in_flight_stable)
next
  case Histogram
  with assms show ?thesis
    by (cases "g (e, w)") (auto simp: Wrap_def wrapWithHistogram_def intro: in_flight_stable)
next
  case (Unrecognized k)
  with assms show ?thesis by (simp add: Wrap_def)
qed

lemma Wrap_keeps_caught:
  assumes "caught name fault st (g (e, enter_kind opts name kind w))"
  shows "caught name fault st (fst (Wrap opts subsystem name kind g lg) (e, w))"
proof (cases kind)
  case PanicTo500
  with assms show ?thesis
    by (cases "g (e, w)")
       (auto simp: Wrap_def wrapWithPanicRecovery_def caught_def final_def)
next
  case RequestLogging
  with assms show ?thesis
    by (cases "g (e, w\<lparr>logged := logged w @ [HandlerEntry name]\<rparr>)")
       (auto simp: Wrap_def wrapWithRequestLogging_def caught_def final_def)
next
  case NoCaching
  with assms show ?thesis by (simp add: Wrap_def wrapWithNoCaching_def)
next
  case CORS
  with assms show ?thesis by (simp add: Wrap_def wrapWithCORS_def)
next
  case Counter
  with assms show ?thesis
    by (cases "g (e, w)") (auto simp: Wrap_def wrapWithCounter_def intro: caught_stable)
next
  case Histogram
  with assms show ?thesis
    by (cases "g (e, w)") (auto simp: Wrap_def wrapWithHistogram_def intro: caught_stable)
next
  case (Unrecognized k)
  with assms show ?thesis by (simp add: Wrap_def)
qed

lemma Compose_keeps_in_flight:
  "in_flight name fault st (g (e, entering opts name chain w)) \<Longrightarrow>
     in_flight name fault st (fst (Compose opts subsystem name chain g lg) (e, w))"
proof (induction chain arbitrary: w)
  case Nil
  then show ?case by simp
next
  case (Cons kind chain)
  then show ?case
    by (simp add: Compose_Cons Wrap_keeps_in_flight del: Compose.simps(2))
qed

lemma Compose_keeps_caught:
  "caught name fault st (g (e, entering opts name chain w)) \<Longrightarrow>
     caught name fault st (fst (Compose opts subsystem name chain g lg) (e, w))"
proof (induction chain arbitrary: w)
  case Nil
  then show ?case by simp
next
  case (Cons kind chain)
  then show ?case
    by (simp add: Compose_Cons Wrap_keeps_caught del: Compose.simps(2))
qed

text \<open>
  C2. Let \<open>PanicTo500\<close> stand anywhere in the chain, with any kinds before and after it,
  and let the base handler, invoked by this dispatch, raise the fault \<open>fault\<close> and leave
  the world \<open>w'\<close>. Then the dispatch of the composed handler returns: no fault reaches
  the caller, so nothing ends the process. The log has the error line with the route name
  and the fault value. The final status is 500 if \<open>w'\<close> has no status written, and the
  status written in \<open>w'\<close> otherwise. The hypothesis is about the one invocation of this
  dispatch: the composed handler asks nothing else of the base handler.
\<close>

theorem panic_recovery_outer:
  assumes "h (e, entering opts name (outer @ PanicTo500 # inner) w) = (Faulted fault, e', w')"
  shows "fst (fst (Compose opts subsystem name (outer @ PanicTo500 # inner) h lg) (e, w))
           = Returned
    \<and> HandlerFault name fault
        \<in> set (logged (final
                 (fst (Compose opts subsystem name (outer @ PanicTo500 # inner) h lg) (e, w))))
    \<and> level_of (HandlerFault name fault) = Error
    \<and> status (final
         (fst (Compose opts subsystem name (outer @ PanicTo500 # inner) h lg) (e, w)))
        = (case status w' of None \<Rightarrow> Some 500 | Some c \<Rightarrow> Some c)
    \<and> fst (Compose opts subsystem name (outer @ PanicTo500 # inner) h lg) (e, w)
        = fst (Compose opts subsystem name (outer @ PanicTo500 # inner)
                 (\<lambda>_. h (e, entering opts name (outer @ PanicTo500 # inner) w)) lg) (e, w)"
proof -
  let ?inner = "fst (Compose opts subsystem name inner h lg)"
  let ?w1 = "entering opts name outer w"
  from assms have "in_flight name fault (status w') (h (e, entering opts name inner ?w1))"
    by (simp add: entering_append in_flight_def final_def)
  then have "in_flight name fault (status w') (?inner (e, ?w1))"
    by (rule Compose_keeps_in_flight)
  then have "caught name fault (status w') (wrapWithPanicRecovery name ?inner (e, ?w1))"
    by (rule recovery_seizes)
  then have "caught name fault (status w')
               (fst (Compose opts subsystem name outer (wrapWithPanicRecovery name ?inner) lg')
                  (e, w))" for lg'
    by (rule Compose_keeps_caught)
  then have "caught name fault (status w')
               (fst (Compose opts subsystem name (outer @ PanicTo500 # inner) h lg) (e, w))"
    by (simp add: Compose_append [of _ _ _ outer] Compose_Cons Wrap_def del: Compose.simps(2))
  moreover have
    "fst (Compose opts subsystem name (outer @ PanicTo500 # inner) h lg) (e, w)
        = fst (Compose opts subsystem name (outer @ PanicTo500 # inner)
                 (\<lambda>_. h (e, entering opts name (outer @ PanicTo500 # inner) w)) lg) (e, w)"
    by (rule Compose_reads) simp
  ultimately show ?thesis
    by (simp add: caught_def forced_def)
qed

theorem panic_recovery_outer_witness:
  "armed (True, entering no_cors ''my-name'' ([RequestLogging] @ PanicTo500 # [Counter, Histogram]) blank)
     = (Faulted ''whoa'', False,
        entering no_cors ''my-name'' ([RequestLogging] @ PanicTo500 # [Counter, Histogram]) blank)
   \<and> fst (armed (False, blank)) = Returned
   \<and> fst (fst (Compose no_cors ''my-sub'' ''my-name''
                 ([RequestLogging] @ PanicTo500 # [Counter, Histogram]) armed []) (True, blank))
       = Returned
   \<and> HandlerFault ''my-name'' ''whoa''
       \<in> set (logged (final (fst (Compose no_cors ''my-sub'' ''my-name''
                 ([RequestLogging] @ PanicTo500 # [Counter, Histogram]) armed []) (True, blank))))
   \<and> status (final (fst (Compose no_cors ''my-sub'' ''my-name''
                 ([RequestLogging] @ PanicTo500 # [Counter, Histogram]) armed []) (True, blank)))
       = Some 500"
proof -
  let ?w = "entering no_cors ''my-name'' ([RequestLogging] @ PanicTo500 # [Counter, Histogram]) blank"
  have f: "armed (True, ?w) = (Faulted ''whoa'', False, ?w)"
    by (simp add: armed_def)
  have s: "status ?w = None" by (simp add: blank_def)
  have r: "fst (armed (False, blank)) = Returned" by (simp add: armed_def)
  note t = panic_recovery_outer [where h = armed and e = True and opts = no_cors
        and name = "''my-name''" and outer = "[RequestLogging]" and inner = "[Counter, Histogram]"
        and w = blank and fault = "''whoa''" and e' = False and w' = ?w
        and subsystem = "''my-sub''" and lg = "[]", OF f]
  show ?thesis
    using t [THEN conjunct1] t [THEN conjunct2, THEN conjunct1]
      t [THEN conjunct2, THEN conjunct2, THEN conjunct2, THEN conjunct1] f s r
    by (simp del: Compose.simps entering.simps)
qed

end
